theory Spec2Isabelle
  imports
    Complex_Main
    "HOL-Library.Char_ord"
    "HOL-Library.List_Lexorder"
    "HOL-Library.AList"
begin

unbundle bit_operations_syntax

section \<open>Python values used by the agent\<close>

text \<open>
  An aware UTC \<open>datetime\<close>, as every producer builds it with
  \<open>datetime.now(timezone.utc)\<close>. The fields are the ones Python exposes; the type
  validates their ranges on construction, which \<open>valid_datetime\<close> records.
\<close>

record datetime =
  year :: nat
  month :: nat
  day :: nat
  hour :: nat
  minute :: nat
  second :: nat
  microsecond :: nat

definition is_leap :: "nat \<Rightarrow> bool" where
  "is_leap y = (y mod 4 = 0 \<and> (y mod 100 \<noteq> 0 \<or> y mod 400 = 0))"

definition days_in_month :: "nat \<Rightarrow> nat \<Rightarrow> nat" where
  "days_in_month y m =
     (if m = 2 \<and> is_leap y then 29
      else [0, 31, 28, 31, 30, 31, 30, 31, 31, 30, 31, 30, 31] ! m)"

definition valid_datetime :: "datetime \<Rightarrow> bool" where
  "valid_datetime d =
     (1 \<le> year d \<and> year d \<le> 9999 \<and> 1 \<le> month d \<and> month d \<le> 12 \<and>
      1 \<le> day d \<and> day d \<le> days_in_month (year d) (month d) \<and>
      hour d < 24 \<and> minute d < 60 \<and> second d < 60 \<and> microsecond d < 1000000)"

text \<open>
  \<open>date.toordinal\<close> and \<open>date.weekday\<close> of the standard library: the proleptic
  Gregorian ordinal (day 1 is 0001-01-01), and Monday as 0.
\<close>

definition days_before_year :: "nat \<Rightarrow> int" where
  "days_before_year y =
     (let y1 = int y - 1 in y1 * 365 + y1 div 4 - y1 div 100 + y1 div 400)"

definition days_before_month :: "nat \<Rightarrow> nat \<Rightarrow> int" where
  "days_before_month y m =
     [0, 0, 31, 59, 90, 120, 151, 181, 212, 243, 273, 304, 334] ! m
       + (if m > 2 \<and> is_leap y then 1 else 0)"

definition toordinal :: "datetime \<Rightarrow> int" where
  "toordinal d = days_before_year (year d) + days_before_month (year d) (month d) + int (day d)"

definition weekday :: "datetime \<Rightarrow> int" where
  "weekday d = (toordinal d + 6) mod 7"

text \<open>Comparison of two aware UTC datetimes: by instant, that is field by field.\<close>

definition dt_key :: "datetime \<Rightarrow> nat list" where
  "dt_key d = [year d, month d, day d, hour d, minute d, second d, microsecond d]"

definition dt_less :: "datetime \<Rightarrow> datetime \<Rightarrow> bool" where
  "dt_less a b = (dt_key a < dt_key b)"

definition dt_le :: "datetime \<Rightarrow> datetime \<Rightarrow> bool" where
  "dt_le a b = (dt_key a \<le> dt_key b)"

section \<open>models/config.py: the away window\<close>

record AwayWindow =
  window_id :: string
  window_label :: string
  start_hour :: int
  start_minute :: int
  end_hour :: int
  end_minute :: int
  days :: "int list"
  enabled :: bool

section \<open>monitors/input\_monitor.py: membership in the away windows\<close>

text \<open>
  \<open>_is_within_away_window(now, windows)\<close>: the loop over the windows returns at the first
  window that covers \<open>now\<close>; a window whose \<open>days\<close> lacks the weekday is skipped.
\<close>

fun is_within_away_window :: "datetime \<Rightarrow> AwayWindow list \<Rightarrow> bool" where
  "is_within_away_window now [] = False"
| "is_within_away_window now (w # ws) =
     (let wd = weekday now;
          t = int (hour now) * 60 + int (minute now)
      in if wd \<notin> set (days w) then is_within_away_window now ws
         else
           let start = start_hour w * 60 + start_minute w;
               end' = end_hour w * 60 + end_minute w
           in if start \<le> end'
              then (if start \<le> t \<and> t < end' then True else is_within_away_window now ws)
              else (if t \<ge> start \<or> t < end' then True else is_within_away_window now ws))"

section \<open>models/event.py and models/alert.py\<close>

datatype EventCategory = FILE_SYSTEM | USER_INPUT | SESSION | SYSTEM

datatype EventAction =
    FILE_CREATED | FILE_MODIFIED | FILE_DELETED | FILE_RENAMED | FILE_MOVED
  | INPUT_DETECTED | IDLE_STARTED | ACTIVE_DURING_AWAY
  | SESSION_LOGON | SESSION_LOGOFF | SESSION_LOCK | SESSION_UNLOCK | SESSION_RDP
  | LOGIN_FAILED | SYSTEM_WAKE | SYSTEM_SLEEP

datatype MonitorSource = FOLDER_MONITOR | INPUT_MONITOR | SESSION_MONITOR

datatype Severity = INFO | LOW | MEDIUM | HIGH | CRITICAL

text \<open>The \<open>.value\<close> of each \<open>StrEnum\<close> member.\<close>

fun category_value :: "EventCategory \<Rightarrow> string" where
  "category_value FILE_SYSTEM = ''file_system''"
| "category_value USER_INPUT = ''user_input''"
| "category_value SESSION = ''session''"
| "category_value SYSTEM = ''system''"

fun action_value :: "EventAction \<Rightarrow> string" where
  "action_value FILE_CREATED = ''file_created''"
| "action_value FILE_MODIFIED = ''file_modified''"
| "action_value FILE_DELETED = ''file_deleted''"
| "action_value FILE_RENAMED = ''file_renamed''"
| "action_value FILE_MOVED = ''file_moved''"
| "action_value INPUT_DETECTED = ''input_detected''"
| "action_value IDLE_STARTED = ''idle_started''"
| "action_value ACTIVE_DURING_AWAY = ''active_during_away''"
| "action_value SESSION_LOGON = ''session_logon''"
| "action_value SESSION_LOGOFF = ''session_logoff''"
| "action_value SESSION_LOCK = ''session_lock''"
| "action_value SESSION_UNLOCK = ''session_unlock''"
| "action_value SESSION_RDP = ''session_rdp''"
| "action_value LOGIN_FAILED = ''login_failed''"
| "action_value SYSTEM_WAKE = ''system_wake''"
| "action_value SYSTEM_SLEEP = ''system_sleep''"

fun source_value :: "MonitorSource \<Rightarrow> string" where
  "source_value FOLDER_MONITOR = ''folder_monitor''"
| "source_value INPUT_MONITOR = ''input_monitor''"
| "source_value SESSION_MONITOR = ''session_monitor''"

fun severity_value :: "Severity \<Rightarrow> string" where
  "severity_value INFO = ''INFO''"
| "severity_value LOW = ''LOW''"
| "severity_value MEDIUM = ''MEDIUM''"
| "severity_value HIGH = ''HIGH''"
| "severity_value CRITICAL = ''CRITICAL''"

text \<open>
  The \<open>detail\<close> dictionaries hold strings, integers and floats (idealised as reals). A
  dictionary is an association list with unique keys in insertion order; \<open>d[k] = v\<close>
  is \<open>AList.update\<close> (replace in place, or append), and the literal
  \<open>{k: v, **d}\<close> stores \<open>k\<close> first and then every item of \<open>d\<close> in turn, so that
  a key of \<open>d\<close> equal to \<open>k\<close> replaces the value stored first.
\<close>

datatype jval = JStr string | JInt int | JFloat real

type_synonym dict = "(string \<times> jval) list"

definition dict_unpack :: "dict \<Rightarrow> dict \<Rightarrow> dict" where
  "dict_unpack base d = fold (\<lambda>(k, v) acc. AList.update k v acc) d base"

definition dict_get :: "dict \<Rightarrow> string \<Rightarrow> jval option" where
  "dict_get d k = map_of d k"

text \<open>
  The fields of \<open>TimelineEvent\<close> carry the prefix \<open>ev_\<close> and those of \<open>Alert\<close> the
  prefix \<open>alert_\<close>, since both classes name fields \<open>id\<close>, \<open>source\<close>, \<open>detail\<close> and
  \<open>severity\<close>.
\<close>

record TimelineEvent =
  ev_id :: string
  ev_source :: MonitorSource
  ev_category :: EventCategory
  ev_action :: EventAction
  ev_subject :: string
  ev_target :: string
  ev_detail :: dict
  ev_severity :: string
  ev_timestamp :: datetime

record Alert =
  alert_id :: string
  alert_severity :: Severity
  alert_message :: string
  alert_source :: string
  alert_detail :: dict
  alert_acknowledged :: bool
  alert_snoozed_until :: "datetime option"
  alert_created_at :: datetime

text \<open>
  \<open>Alert(severity=..., message=..., source=..., detail=...)\<close>: the two default
  factories draw a fresh identifier and the construction instant, which the model takes
  as a pair.
\<close>

definition Alert_new :: "string \<times> datetime \<Rightarrow> Severity \<Rightarrow> string \<Rightarrow> string \<Rightarrow> dict \<Rightarrow> Alert" where
  "Alert_new fresh sev msg src det =
     \<lparr>alert_id = fst fresh, alert_severity = sev, alert_message = msg, alert_source = src,
      alert_detail = det, alert_acknowledged = False, alert_snoozed_until = None,
      alert_created_at = snd fresh\<rparr>"

section \<open>engine/timeline.py: rule evaluation\<close>

text \<open>
  \<open>TimelineEngine._evaluate\<close>. The four rules are four independent \<open>if\<close> statements
  that append to \<open>alerts\<close>; the \<open>k\<close>-th alert constructed takes its identifier and
  construction instant from \<open>fresh k\<close>.
\<close>

definition in_away :: "AwayWindow list \<Rightarrow> datetime \<Rightarrow> bool" where
  "in_away away_windows now =
     (if away_windows \<noteq> [] then is_within_away_window now away_windows else False)"

definition evaluate :: "AwayWindow list \<Rightarrow> (nat \<Rightarrow> string \<times> datetime) \<Rightarrow> TimelineEvent \<Rightarrow> Alert list" where
  "evaluate away_windows fresh event =
     (let alerts0 = [];
          now = ev_timestamp event;
          away = in_away away_windows now;
          alerts1 =
            (if ev_action event \<in> {FILE_CREATED, FILE_MODIFIED, FILE_DELETED, FILE_RENAMED, FILE_MOVED}
                \<and> away
             then alerts0 @ [Alert_new (fresh (length alerts0)) HIGH
                    (''File '' @ action_value (ev_action event) @ '' during away window: '' @ ev_target event)
                    (source_value (ev_source event))
                    [(''event_id'', JStr (ev_id event)), (''target'', JStr (ev_target event))]]
             else alerts0);
          alerts2 =
            (if ev_action event = ACTIVE_DURING_AWAY
             then alerts1 @ [Alert_new (fresh (length alerts1)) MEDIUM
                    ''Keyboard/mouse activity detected during away window''
                    (source_value (ev_source event))
                    (dict_unpack [(''event_id'', JStr (ev_id event))] (ev_detail event))]
             else alerts1);
          alerts3 =
            (if ev_action event = LOGIN_FAILED
             then alerts2 @ [Alert_new (fresh (length alerts2)) HIGH
                    ''Failed login attempt detected''
                    (source_value (ev_source event))
                    (dict_unpack [(''event_id'', JStr (ev_id event))] (ev_detail event))]
             else alerts2);
          alerts4 =
            (if ev_action event = SESSION_RDP \<and> away
             then alerts3 @ [Alert_new (fresh (length alerts3)) CRITICAL
                    ''Remote Desktop session during away window''
                    (source_value (ev_source event))
                    (dict_unpack [(''event_id'', JStr (ev_id event))] (ev_detail event))]
             else alerts3)
      in alerts4)"

section \<open>db/database.py: the store\<close>

text \<open>
  \<open>datetime.isoformat()\<close> of an aware UTC datetime:
  \<open>YYYY-MM-DDTHH:MM:SS+00:00\<close>, with \<open>.ffffff\<close> after the seconds when the
  microsecond field is not zero. \<open>zpad w n\<close> is \<open>n\<close> in decimal, zero-padded to
  \<open>w\<close> digits.
\<close>

definition digit_char :: "nat \<Rightarrow> char" where
  "digit_char n = ''0123456789'' ! n"

fun zpad :: "nat \<Rightarrow> nat \<Rightarrow> string" where
  "zpad 0 n = []"
| "zpad (Suc w) n = zpad w (n div 10) @ [digit_char (n mod 10)]"

definition isoformat :: "datetime \<Rightarrow> string" where
  "isoformat d =
     zpad 4 (year d) @ ''-'' @ zpad 2 (month d) @ ''-'' @ zpad 2 (day d) @ ''T'' @
     zpad 2 (hour d) @ '':'' @ zpad 2 (minute d) @ '':'' @ zpad 2 (second d) @
     (if microsecond d = 0 then [] else ''.'' @ zpad 6 (microsecond d)) @ ''+00:00''"

text \<open>
  The \<open>since\<close> argument of \<open>get_events\<close> is what \<open>datetime.fromisoformat\<close> made of a
  client's text: a datetime with any UTC offset, or with none. \<open>tz_datetime\<close> adds to
  the fields the offset in minutes east of UTC (\<open>None\<close> for a naive datetime). Its
  \<open>isoformat\<close> ends in \<open>+HH:MM\<close> or \<open>-HH:MM\<close>, and in nothing when the datetime is
  naive.
\<close>

record tz_datetime = datetime +
  utcoffset :: "int option"

definition offset_suffix :: "int option \<Rightarrow> string" where
  "offset_suffix off =
     (case off of
        None \<Rightarrow> []
      | Some m \<Rightarrow> (if m < 0 then ''-'' else ''+'') @ zpad 2 (nat \<bar>m\<bar> div 60) @ '':''
                    @ zpad 2 (nat \<bar>m\<bar> mod 60))"

definition isoformat_tz :: "tz_datetime \<Rightarrow> string" where
  "isoformat_tz s =
     zpad 4 (year s) @ ''-'' @ zpad 2 (month s) @ ''-'' @ zpad 2 (day s) @ ''T'' @
     zpad 2 (hour s) @ '':'' @ zpad 2 (minute s) @ '':'' @ zpad 2 (second s) @
     (if microsecond s = 0 then [] else ''.'' @ zpad 6 (microsecond s)) @
     offset_suffix (utcoffset s)"

text \<open>
  The tables hold text columns. The \<open>detail\<close> column is the JSON text of the
  dictionary, which \<open>_row_to_dict\<close> decodes again on every read; the model keeps the
  dictionary. A table is the list of its rows in insertion order.
\<close>

record EventRow =
  row_id :: string
  row_source :: string
  row_category :: string
  row_action :: string
  row_subject :: string
  row_target :: string
  row_detail :: dict
  row_severity :: string
  row_timestamp :: string

record AlertRow =
  arow_id :: string
  arow_severity :: string
  arow_message :: string
  arow_source :: string
  arow_detail :: dict
  arow_acknowledged :: int
  arow_snoozed_until :: "string option"
  arow_created_at :: string

record Store =
  tbl_timeline_events :: "EventRow list"
  tbl_alerts :: "AlertRow list"
  tbl_settings :: "(string \<times> string) list"

datatype db_error = IntegrityError | OverflowError

definition event_row :: "TimelineEvent \<Rightarrow> EventRow" where
  "event_row event =
     \<lparr>row_id = ev_id event, row_source = source_value (ev_source event),
      row_category = category_value (ev_category event),
      row_action = action_value (ev_action event), row_subject = ev_subject event,
      row_target = ev_target event, row_detail = ev_detail event,
      row_severity = ev_severity event, row_timestamp = isoformat (ev_timestamp event)\<rparr>"

text \<open>
  Modelled from the spec: \<open>schema.sql\<close> is not among the sources; the specification
  gives \<open>timeline_events(id PK, ...)\<close> and \<open>alerts(id PK, ...)\<close>, so an \<open>INSERT\<close> of
  an identifier already present fails and leaves the table as it was.
\<close>

definition insert_event :: "TimelineEvent \<Rightarrow> Store \<Rightarrow> db_error + Store" where
  "insert_event event st =
     (if ev_id event \<in> set (map row_id (tbl_timeline_events st)) then Inl IntegrityError
      else Inr (st\<lparr>tbl_timeline_events := tbl_timeline_events st @ [event_row event]\<rparr>))"

text \<open>
  \<open>get_events\<close>: a clause is added for an argument that is truthy (not \<open>None\<close>, and
  for a string not empty; a \<open>datetime\<close> is always truthy). The comparison
  \<open>timestamp >= ?\<close> is between the stored text and \<open>since.isoformat()\<close>.
  \<open>ORDER BY timestamp DESC\<close> sorts by the text, latest first; SQLite's sorter leaves
  rows of equal timestamp in the order of the scan, which is the insertion order. A
  negative \<open>LIMIT\<close> is no limit and a negative \<open>OFFSET\<close> is zero. Binding a \<open>limit\<close> or
  an \<open>offset\<close> outside the signed 64-bit range raises \<open>OverflowError\<close> before the
  query runs.
\<close>

definition truthy :: "string option \<Rightarrow> bool" where
  "truthy a = (case a of None \<Rightarrow> False | Some s \<Rightarrow> s \<noteq> [])"

definition event_matches :: "string option \<Rightarrow> string option \<Rightarrow> tz_datetime option \<Rightarrow> EventRow \<Rightarrow> bool" where
  "event_matches category action since r =
     ((if truthy category then row_category r = the category else True) \<and>
      (if truthy action then row_action r = the action else True) \<and>
      (case since of None \<Rightarrow> True | Some t \<Rightarrow> row_timestamp r \<ge> isoformat_tz t))"

definition order_by_timestamp_desc :: "EventRow list \<Rightarrow> EventRow list" where
  "order_by_timestamp_desc rows = rev (sort_key row_timestamp (rev rows))"

definition select_events ::
  "string option \<Rightarrow> string option \<Rightarrow> tz_datetime option \<Rightarrow> Store \<Rightarrow> EventRow list" where
  "select_events category action since st =
     order_by_timestamp_desc
       (filter (event_matches category action since) (tbl_timeline_events st))"

definition limit_offset :: "int \<Rightarrow> int \<Rightarrow> 'a list \<Rightarrow> 'a list" where
  "limit_offset limit offset rows =
     (let rest = drop (nat offset) rows in if limit < 0 then rest else take (nat limit) rest)"

definition in_int64 :: "int \<Rightarrow> bool" where
  "in_int64 v = (- (2 ^ 63) \<le> v \<and> v < 2 ^ 63)"

definition get_events ::
  "string option \<Rightarrow> string option \<Rightarrow> tz_datetime option \<Rightarrow> int \<Rightarrow> int \<Rightarrow> Store
     \<Rightarrow> db_error + EventRow list" where
  "get_events category action since limit offset st =
     (if in_int64 limit \<and> in_int64 offset
      then Inr (limit_offset limit offset (select_events category action since st))
      else Inl OverflowError)"

definition get_event_by_id :: "string \<Rightarrow> Store \<Rightarrow> EventRow option" where
  "get_event_by_id event_id st = find (\<lambda>r. row_id r = event_id) (tbl_timeline_events st)"

definition alert_row :: "Alert \<Rightarrow> AlertRow" where
  "alert_row alert =
     \<lparr>arow_id = alert_id alert, arow_severity = severity_value (alert_severity alert),
      arow_message = alert_message alert, arow_source = alert_source alert,
      arow_detail = alert_detail alert,
      arow_acknowledged = (if alert_acknowledged alert then 1 else 0),
      arow_snoozed_until = map_option isoformat (alert_snoozed_until alert),
      arow_created_at = isoformat (alert_created_at alert)\<rparr>"

definition insert_alert :: "Alert \<Rightarrow> Store \<Rightarrow> db_error + Store" where
  "insert_alert alert st =
     (if alert_id alert \<in> set (map arow_id (tbl_alerts st)) then Inl IntegrityError
      else Inr (st\<lparr>tbl_alerts := tbl_alerts st @ [alert_row alert]\<rparr>))"

definition get_alert_by_id :: "string \<Rightarrow> Store \<Rightarrow> AlertRow option" where
  "get_alert_by_id aid st = find (\<lambda>r. arow_id r = aid) (tbl_alerts st)"

text \<open>
  \<open>acknowledge_alert\<close> and \<open>snooze_alert\<close>: one \<open>UPDATE ... WHERE id = ?\<close> each; the
  result is \<open>cursor.rowcount > 0\<close>.
\<close>

definition acknowledge_alert :: "string \<Rightarrow> Store \<Rightarrow> Store \<times> bool" where
  "acknowledge_alert aid st =
     (st\<lparr>tbl_alerts := map (\<lambda>r. if arow_id r = aid then r\<lparr>arow_acknowledged := 1\<rparr> else r) (tbl_alerts st)\<rparr>,
      length (filter (\<lambda>r. arow_id r = aid) (tbl_alerts st)) > 0)"

definition snooze_alert :: "string \<Rightarrow> datetime \<Rightarrow> Store \<Rightarrow> Store \<times> bool" where
  "snooze_alert aid until st =
     (st\<lparr>tbl_alerts :=
         map (\<lambda>r. if arow_id r = aid then r\<lparr>arow_snoozed_until := Some (isoformat until)\<rparr> else r)
           (tbl_alerts st)\<rparr>,
      length (filter (\<lambda>r. arow_id r = aid) (tbl_alerts st)) > 0)"

section \<open>engine/timeline.py: handling one event\<close>

text \<open>
  \<open>TimelineEngine._handle_event\<close>: the event is inserted (a failure is logged and
  the handler goes on), the rules are evaluated, and each alert is inserted (a failure
  is logged) and handed to \<open>on_alert\<close> when a callback is set. The result is the store
  and the alerts handed to the callback, in order.
\<close>

definition handle_event ::
  "AwayWindow list \<Rightarrow> (nat \<Rightarrow> string \<times> datetime) \<Rightarrow> bool \<Rightarrow> TimelineEvent \<Rightarrow> Store \<Rightarrow> Store \<times> Alert list" where
  "handle_event away_windows fresh on_alert event st =
     (let st1 = (case insert_event event st of Inl _ \<Rightarrow> st | Inr s \<Rightarrow> s);
          alerts = evaluate away_windows fresh event
      in fold (\<lambda>alert (s, delivered).
                 ((case insert_alert alert s of Inl _ \<Rightarrow> s | Inr s' \<Rightarrow> s'),
                  (if on_alert then delivered @ [alert] else delivered)))
           alerts (st1, []))"

section \<open>engine/event\_bus.py: publishing\<close>

text \<open>
  The bus owns an \<open>asyncio.Queue(maxsize)\<close>. \<open>Queue.full()\<close> is false when
  \<open>maxsize <= 0\<close> and \<open>qsize() >= maxsize\<close> otherwise; \<open>await queue.put(item)\<close>
  waits while the queue is full and appends the item otherwise. \<open>publish\<close> is that
  \<open>put\<close> and nothing else: its outcome is the bus with the event enqueued, or the
  caller suspended on a full queue. \<open>BackpressureExceeded\<close> is the failure the
  specification names; no statement of the module raises it. The subscribers and the
  dispatch task play no part in \<open>publish\<close> and are left out of the record.
\<close>

record EventBus =
  maxsize :: int
  queue :: "TimelineEvent list"
  running :: bool

datatype bus_error = BackpressureExceeded

datatype publish_outcome = Enqueued EventBus | Suspended

definition EventBus_new :: "int \<Rightarrow> EventBus" where
  "EventBus_new n = \<lparr>maxsize = n, queue = [], running = False\<rparr>"

definition full :: "EventBus \<Rightarrow> bool" where
  "full bus = (if maxsize bus \<le> 0 then False else int (length (queue bus)) \<ge> maxsize bus)"

definition publish :: "EventBus \<Rightarrow> TimelineEvent \<Rightarrow> bus_error + publish_outcome" where
  "publish bus event =
     (if full bus then Inr Suspended else Inr (Enqueued (bus\<lparr>queue := queue bus @ [event]\<rparr>)))"

definition pending_count :: "EventBus \<Rightarrow> nat" where
  "pending_count bus = length (queue bus)"

section \<open>alerts/email\_notifier.py: throttling and batching\<close>

text \<open>
  The difference of two datetimes is a \<open>timedelta\<close>, compared by its length; the model
  counts microseconds. The notifier's state is \<open>_throttle\<close>, \<open>_last_sent\<close> and
  \<open>_pending\<close>.
\<close>

definition to_microseconds :: "datetime \<Rightarrow> int" where
  "to_microseconds d =
     (((toordinal d * 24 + int (hour d)) * 60 + int (minute d)) * 60 + int (second d)) * 1000000
       + int (microsecond d)"

definition timedelta_minutes :: "int \<Rightarrow> int" where
  "timedelta_minutes n = n * 60 * 1000000"

record EmailNotifier =
  throttle :: int
  last_sent :: "datetime option"
  pending :: "Alert list"

definition EmailNotifier_new :: "int \<Rightarrow> EmailNotifier" where
  "EmailNotifier_new throttle_minutes =
     \<lparr>throttle = timedelta_minutes throttle_minutes, last_sent = None, pending = []\<rparr>"

text \<open>
  The message of one batch: the subject reads
  \<open>PIDA: <count> alert(s) - highest: <severity of the first alert>\<close> and the body
  lists every alert of the batch.
\<close>

record EmailMessage =
  subject_count :: nat
  subject_highest :: string
  body_alerts :: "Alert list"

text \<open>
  \<open>_send_smtp\<close> opens the session, sends the message and closes the session. It
  returns, or it raises before the server has accepted the message (connecting,
  STARTTLS, login, \<open>send_message\<close>), or it raises after the message was accepted (the
  \<open>QUIT\<close> that closes the session answers with an error).
\<close>

datatype smtp_result = Sent | RaisedBeforeDelivery | RaisedAfterDelivery

text \<open>
  \<open>_send_batch\<close>. The coroutine snapshots and clears \<open>_pending\<close>, then awaits the SMTP
  send on a worker thread. While it waits, other coroutines may append to \<open>_pending\<close>:
  \<open>arrived\<close> are those alerts, in order. \<open>smtp\<close> is how \<open>_send_smtp\<close> ended, and
  \<open>sent_at\<close> is the clock read after a send that returned. The result is the new state
  and the message the server accepted, if any.
\<close>

definition send_batch ::
  "smtp_result \<Rightarrow> Alert list \<Rightarrow> datetime \<Rightarrow> EmailNotifier \<Rightarrow> EmailNotifier \<times> EmailMessage option" where
  "send_batch smtp arrived sent_at n =
     (case pending n of
        [] \<Rightarrow> (n, None)
      | first # others \<Rightarrow>
          let alerts = first # others;
              n1 = n\<lparr>pending := []\<rparr>;
              msg = \<lparr>subject_count = length alerts,
                     subject_highest = severity_value (alert_severity first),
                     body_alerts = alerts\<rparr>;
              n2 = n1\<lparr>pending := pending n1 @ arrived\<rparr>
          in case smtp of
               Sent \<Rightarrow> (n2\<lparr>last_sent := Some sent_at\<rparr>, Some msg)
             | RaisedBeforeDelivery \<Rightarrow> (n2\<lparr>pending := pending n2 @ alerts\<rparr>, None)
             | RaisedAfterDelivery \<Rightarrow> (n2\<lparr>pending := pending n2 @ alerts\<rparr>, Some msg))"

text \<open>
  \<open>notify\<close> appends the alert and returns without sending when the last successful
  send is less than the throttle interval ago.
\<close>

definition throttled :: "EmailNotifier \<Rightarrow> datetime \<Rightarrow> bool" where
  "throttled n now =
     (case last_sent n of
        None \<Rightarrow> False
      | Some sent \<Rightarrow> to_microseconds now - to_microseconds sent < throttle n)"

definition notify ::
  "Alert \<Rightarrow> datetime \<Rightarrow> smtp_result \<Rightarrow> Alert list \<Rightarrow> datetime \<Rightarrow> EmailNotifier \<Rightarrow> EmailNotifier \<times> EmailMessage option" where
  "notify alert now smtp arrived sent_at n =
     (let n1 = n\<lparr>pending := pending n @ [alert]\<rparr>
      in if throttled n1 now then (n1, None)
         else send_batch smtp arrived sent_at n1)"

definition flush ::
  "smtp_result \<Rightarrow> Alert list \<Rightarrow> datetime \<Rightarrow> EmailNotifier \<Rightarrow> EmailNotifier \<times> EmailMessage option" where
  "flush smtp arrived sent_at n =
     (if pending n \<noteq> [] then send_batch smtp arrived sent_at n else (n, None))"

section \<open>monitors/input\_monitor.py: one sample\<close>

text \<open>
  \<open>TimelineEvent(source=..., category=..., action=..., detail=..., severity=...)\<close> as the
  producers build it: the identifier and the timestamp come from the default factories,
  subject and target keep their default.
\<close>

definition TimelineEvent_new ::
  "string \<times> datetime \<Rightarrow> MonitorSource \<Rightarrow> EventCategory \<Rightarrow> EventAction \<Rightarrow> dict \<Rightarrow> string \<Rightarrow> TimelineEvent" where
  "TimelineEvent_new fresh src cat act det sev =
     \<lparr>ev_id = fst fresh, ev_source = src, ev_category = cat, ev_action = act, ev_subject = [],
      ev_target = [], ev_detail = det, ev_severity = sev, ev_timestamp = snd fresh\<rparr>"

text \<open>
  The monitor's fields carry the prefix \<open>im_\<close>. Seconds are Python floats, idealised
  as reals: the model adds exactly where the code rounds each sum to a double, so
  the two agree on runs whose sums are exact in doubles (such as multiples of the
  default interval of 5 s) and may differ where a rounded sum falls on the other side
  of the threshold.
\<close>

record InputMonitor =
  im_poll_interval :: real
  im_away_windows :: "AwayWindow list"
  im_streak_threshold :: real
  im_active_streak :: real

text \<open>
  One pass through the body of \<open>InputMonitor._poll_loop\<close>, up to the sleep. \<open>idle_read\<close>
  is what \<open>_get_idle()\<close> returned, or \<open>None\<close> when it raised (the pass is then
  abandoned and logged). The result is the monitor and the events handed to
  \<open>bus.publish\<close>.
\<close>

definition input_poll ::
  "real option \<Rightarrow> datetime \<Rightarrow> string \<times> datetime \<Rightarrow> InputMonitor \<Rightarrow> InputMonitor \<times> TimelineEvent list" where
  "input_poll idle_read now fresh m =
     (case idle_read of
        None \<Rightarrow> (m, [])
      | Some idle \<Rightarrow>
          if idle < im_poll_interval m then
            let m1 = m\<lparr>im_active_streak := im_active_streak m + im_poll_interval m\<rparr>
            in if im_active_streak m1 \<ge> im_streak_threshold m1
                  \<and> im_away_windows m1 \<noteq> []
                  \<and> is_within_away_window now (im_away_windows m1)
               then (m1\<lparr>im_active_streak := 0\<rparr>,
                     [TimelineEvent_new fresh INPUT_MONITOR USER_INPUT ACTIVE_DURING_AWAY
                        [(''idle_seconds'', JFloat idle),
                         (''streak_seconds'', JFloat (im_active_streak m1))]
                        ''MEDIUM''])
               else if im_active_streak m1 = im_poll_interval m1
               then (m1,
                     [TimelineEvent_new fresh INPUT_MONITOR USER_INPUT INPUT_DETECTED
                        [(''idle_seconds'', JFloat idle)] ''INFO''])
               else (m1, [])
          else
            if im_active_streak m > 0
            then (m\<lparr>im_active_streak := 0\<rparr>,
                  [TimelineEvent_new fresh INPUT_MONITOR USER_INPUT IDLE_STARTED
                     [(''last_active_streak'', JFloat (im_active_streak m))] ''INFO''])
            else (m\<lparr>im_active_streak := 0\<rparr>, []))"

section \<open>monitors/session\_monitor.py: reading the logs and one poll\<close>

definition SECURITY_EVENTS :: "(int \<times> EventAction) list" where
  "SECURITY_EVENTS =
     [(4624, SESSION_LOGON), (4625, LOGIN_FAILED), (4800, SESSION_LOCK), (4801, SESSION_UNLOCK)]"

definition SYSTEM_EVENTS :: "(int \<times> EventAction) list" where
  "SYSTEM_EVENTS = [(1, SYSTEM_WAKE), (42, SYSTEM_SLEEP), (107, SYSTEM_WAKE)]"

definition RDP_EVENTS :: "(int \<times> EventAction) list" where
  "RDP_EVENTS = [(21, SESSION_RDP), (23, SESSION_LOGOFF), (24, SESSION_RDP), (25, SESSION_RDP)]"

text \<open>
  A record as the readers return it: a dictionary with the keys \<open>event_id\<close>,
  \<open>timestamp\<close>, \<open>source\<close> and \<open>message\<close>, any of which an injected reader may leave
  out. \<open>LogEvent\<close> is an entry of the Windows event log as \<open>ReadEventLog\<close> yields it,
  with \<open>TimeGenerated\<close> already read as a UTC datetime and \<open>Message\<close> the text that
  \<open>SafeFormatMessage\<close> gives.
\<close>

record RawRecord =
  rec_event_id :: "int option"
  rec_timestamp :: "datetime option"
  rec_source :: "string option"
  rec_message :: "string option"

record LogEvent =
  TimeGenerated :: datetime
  EventID :: int
  SourceName :: string
  Message :: string

text \<open>
  One call of \<open>ReadEventLog\<close> returns the next entries, newest first, or raises. The
  reader of a monitor is the injected \<open>read_log_fn\<close>, or the built-in one: nothing off
  Windows, nothing without pywin32, and otherwise the log read backwards.
\<close>

datatype read_result = Entries "LogEvent list" | ReadError

datatype reader =
    Injected "string \<Rightarrow> int set \<Rightarrow> datetime \<Rightarrow> RawRecord list"
  | NotWindows
  | NoPywin32
  | Win32Log "string \<Rightarrow> read_result list"

text \<open>
  The inner \<open>for\<close> loop of \<open>_read_events_blocking\<close>: it returns from the function at
  the first entry that is not later than \<open>since\<close> (the flag is then true), and keeps
  the entries whose identifier, masked to 16 bits, is wanted.
\<close>

fun scan_entries :: "int set \<Rightarrow> datetime \<Rightarrow> RawRecord list \<Rightarrow> LogEvent list \<Rightarrow> RawRecord list \<times> bool" where
  "scan_entries event_ids since results [] = (results, False)"
| "scan_entries event_ids since results (e # es) =
     (let ev_time = TimeGenerated e
      in if dt_le ev_time since then (results, True)
         else if (EventID e AND 0xFFFF) \<in> event_ids
         then scan_entries event_ids since
                (results @ [\<lparr>rec_event_id = Some (EventID e AND 0xFFFF),
                              rec_timestamp = Some ev_time,
                              rec_source = Some (SourceName e),
                              rec_message = Some (Message e)\<rparr>]) es
         else scan_entries event_ids since results es)"

text \<open>
  The outer \<open>while True\<close> loop: it ends when a read returns nothing (the end of the
  log, also when the reads are used up), when a read raises (logged; the results so
  far are returned), or when the inner loop returned.
\<close>

fun read_log :: "int set \<Rightarrow> datetime \<Rightarrow> RawRecord list \<Rightarrow> read_result list \<Rightarrow> RawRecord list" where
  "read_log event_ids since results [] = results"
| "read_log event_ids since results (ReadError # reads) = results"
| "read_log event_ids since results (Entries [] # reads) = results"
| "read_log event_ids since results (Entries (e # es) # reads) =
     (case scan_entries event_ids since results (e # es) of
        (results', True) \<Rightarrow> results'
      | (results', False) \<Rightarrow> read_log event_ids since results' reads)"

definition read_events_blocking :: "reader \<Rightarrow> string \<Rightarrow> int set \<Rightarrow> datetime \<Rightarrow> RawRecord list" where
  "read_events_blocking rd log_type event_ids since =
     (case rd of
        Injected read_log_fn \<Rightarrow> read_log_fn log_type event_ids since
      | NotWindows \<Rightarrow> []
      | NoPywin32 \<Rightarrow> []
      | Win32Log logs \<Rightarrow> read_log event_ids since [] (logs log_type))"

definition fetch_all :: "reader \<Rightarrow> datetime \<Rightarrow> RawRecord list" where
  "fetch_all rd since =
     (let security = read_events_blocking rd ''Security'' (set (map fst SECURITY_EVENTS)) since;
          system = read_events_blocking rd ''System'' (set (map fst SYSTEM_EVENTS)) since;
          rdp = read_events_blocking rd
                  ''Microsoft-Windows-TerminalServices-LocalSessionManager/Operational''
                  (set (map fst RDP_EVENTS)) since
      in security @ system @ rdp)"

text \<open>
  The action of an event identifier: the first of the three tables that knows it.
\<close>

definition lookup_action :: "int \<Rightarrow> EventAction option" where
  "lookup_action eid =
     (case map_of SECURITY_EVENTS eid of
        Some a \<Rightarrow> Some a
      | None \<Rightarrow> (case map_of SYSTEM_EVENTS eid of
                   Some a \<Rightarrow> Some a
                 | None \<Rightarrow> map_of RDP_EVENTS eid))"

definition session_event :: "string \<times> datetime \<Rightarrow> datetime \<Rightarrow> RawRecord \<Rightarrow> int \<Rightarrow> EventAction \<Rightarrow> TimelineEvent" where
  "session_event fresh now raw eid action =
     (let severity = (if action = LOGIN_FAILED then ''HIGH''
                      else if action = SESSION_RDP then ''MEDIUM'' else ''INFO'')
      in (TimelineEvent_new fresh SESSION_MONITOR
            (if action \<notin> {SYSTEM_WAKE, SYSTEM_SLEEP} then SESSION else SYSTEM)
            action
            [(''event_id'', JInt eid),
             (''source'', JStr (case rec_source raw of None \<Rightarrow> [] | Some s \<Rightarrow> s)),
             (''message'', JStr (case rec_message raw of None \<Rightarrow> [] | Some s \<Rightarrow> s))]
            severity)
         \<lparr>ev_timestamp := (case rec_timestamp raw of None \<Rightarrow> now | Some t \<Rightarrow> t)\<rparr>)"

text \<open>
  The \<open>for raw in events\<close> loop of \<open>SessionMonitor._poll_loop\<close>: \<open>published\<close> are the
  events handed to \<open>bus.publish\<close> so far. A record without \<open>event_id\<close> raises
  \<open>KeyError\<close>, which ends the loop (the flag is then false). The \<open>k\<close>-th event built
  takes its identifier and default timestamp from \<open>fresh k\<close>.
\<close>

fun publish_records ::
  "(nat \<Rightarrow> string \<times> datetime) \<Rightarrow> datetime \<Rightarrow> TimelineEvent list \<Rightarrow> RawRecord list \<Rightarrow> TimelineEvent list \<times> bool" where
  "publish_records fresh now published [] = (published, True)"
| "publish_records fresh now published (raw # raws) =
     (case rec_event_id raw of
        None \<Rightarrow> (published, False)
      | Some eid \<Rightarrow>
          (case lookup_action eid of
             None \<Rightarrow> publish_records fresh now published raws
           | Some action \<Rightarrow>
               publish_records fresh now
                 (published @ [session_event (fresh (length published)) now raw eid action]) raws))"

record SessionMonitor =
  sm_poll_interval :: real
  sm_last_read_time :: datetime

text \<open>
  One pass through the body of \<open>SessionMonitor._poll_loop\<close>, up to the sleep: the
  high-water mark moves to \<open>now\<close> unless the pass was abandoned.
\<close>

definition session_poll ::
  "reader \<Rightarrow> (nat \<Rightarrow> string \<times> datetime) \<Rightarrow> datetime \<Rightarrow> SessionMonitor \<Rightarrow> SessionMonitor \<times> TimelineEvent list" where
  "session_poll rd fresh now m =
     (let since = sm_last_read_time m;
          events = fetch_all rd since
      in case publish_records fresh now [] events of
           (published, True) \<Rightarrow> (m\<lparr>sm_last_read_time := now\<rparr>, published)
         | (published, False) \<Rightarrow> (m, published))"

section \<open>The away windows and the rule table of the specification\<close>

text \<open>
  The specification's away window, written from its words: with the bounds taken in
  minutes of the day, a window with \<open>start \<le> end\<close> spans \<open>[start, end)\<close> on each
  listed weekday, and otherwise it wraps past midnight and is active on the listed
  weekdays from \<open>start\<close> to the end of the day and from the start of the day to
  \<open>end\<close>; membership is checked on the day on which the moment falls. A window whose
  \<open>enabled\<close> is false is ignored.
\<close>

definition window_start :: "AwayWindow \<Rightarrow> int" where
  "window_start w = start_hour w * 60 + start_minute w"

definition window_end :: "AwayWindow \<Rightarrow> int" where
  "window_end w = end_hour w * 60 + end_minute w"

definition minute_of_day :: "datetime \<Rightarrow> int" where
  "minute_of_day t = int (hour t) * 60 + int (minute t)"

definition window_covers :: "datetime \<Rightarrow> AwayWindow \<Rightarrow> bool" where
  "window_covers t w =
     (weekday t \<in> set (days w) \<and>
      (if window_start w \<le> window_end w
       then window_start w \<le> minute_of_day t \<and> minute_of_day t < window_end w
       else minute_of_day t \<ge> window_start w \<or> minute_of_day t < window_end w))"

definition spec_in_away :: "AwayWindow list \<Rightarrow> datetime \<Rightarrow> bool" where
  "spec_in_away ws t = list_ex (window_covers t) (filter enabled ws)"

text \<open>
  The specification's table of rules, written from its words to be compared with
  \<open>evaluate\<close>: the condition, the severity and the message of each rule.
\<close>

datatype rule = R1 | R2 | R3 | R4

fun rule_condition :: "AwayWindow list \<Rightarrow> TimelineEvent \<Rightarrow> rule \<Rightarrow> bool" where
  "rule_condition ws e R1 =
     (ev_action e \<in> {FILE_CREATED, FILE_MODIFIED, FILE_DELETED, FILE_RENAMED, FILE_MOVED}
      \<and> spec_in_away ws (ev_timestamp e))"
| "rule_condition ws e R2 = (ev_action e = ACTIVE_DURING_AWAY)"
| "rule_condition ws e R3 = (ev_action e = LOGIN_FAILED)"
| "rule_condition ws e R4 = (ev_action e = SESSION_RDP \<and> spec_in_away ws (ev_timestamp e))"

fun rule_severity :: "rule \<Rightarrow> Severity" where
  "rule_severity R1 = HIGH"
| "rule_severity R2 = MEDIUM"
| "rule_severity R3 = HIGH"
| "rule_severity R4 = CRITICAL"

fun rule_message :: "TimelineEvent \<Rightarrow> rule \<Rightarrow> string" where
  "rule_message e R1 = ''File '' @ action_value (ev_action e) @ '' during away window: '' @ ev_target e"
| "rule_message e R2 = ''Keyboard/mouse activity detected during away window''"
| "rule_message e R3 = ''Failed login attempt detected''"
| "rule_message e R4 = ''Remote Desktop session during away window''"

section \<open>Concrete inputs\<close>

definition utc :: "nat \<Rightarrow> nat \<Rightarrow> nat \<Rightarrow> nat \<Rightarrow> nat \<Rightarrow> datetime" where
  "utc y m d h mi = \<lparr>year = y, month = m, day = d, hour = h, minute = mi, second = 0, microsecond = 0\<rparr>"

text \<open>2025-01-06 is a Monday, 2025-01-11 a Saturday.\<close>

definition monday_noon :: datetime where
  "monday_noon = utc 2025 1 6 12 0"

definition monday_late :: datetime where
  "monday_late = utc 2025 1 6 23 30"

definition saturday_noon :: datetime where
  "saturday_noon = utc 2025 1 11 12 0"

definition window :: "int \<Rightarrow> int \<Rightarrow> int \<Rightarrow> int \<Rightarrow> int list \<Rightarrow> bool \<Rightarrow> AwayWindow" where
  "window sh sm eh em ds en =
     \<lparr>window_id = ''w'', window_label = [], start_hour = sh, start_minute = sm,
      end_hour = eh, end_minute = em, days = ds, enabled = en\<rparr>"

definition office_hours :: AwayWindow where
  "office_hours = window 9 0 17 0 [0, 1, 2, 3, 4, 5, 6] True"

definition overnight :: AwayWindow where
  "overnight = window 23 0 6 0 [0, 1, 2, 3, 4, 5, 6] True"

definition empty_interval :: AwayWindow where
  "empty_interval = window 9 0 9 0 [0, 1, 2, 3, 4, 5, 6] True"

definition working_days :: AwayWindow where
  "working_days = window 9 0 17 0 [0, 1, 2, 3, 4] True"

definition office_hours_disabled :: AwayWindow where
  "office_hours_disabled = window 9 0 17 0 [0, 1, 2, 3, 4, 5, 6] False"

text \<open>
  A failed login in the Security log, read by a monitor whose high-water mark is
  11:00: the log holds one entry of 11:59 with the event identifier 4625.
\<close>

definition failed_login_log :: "string \<Rightarrow> read_result list" where
  "failed_login_log log_type =
     (if log_type = ''Security''
      then [Entries [\<lparr>TimeGenerated = utc 2025 1 6 11 59, EventID = 4625,
                       SourceName = ''Security'', Message = ''bad password''\<rparr>]]
      else [])"

definition session_monitor0 :: SessionMonitor where
  "session_monitor0 = \<lparr>sm_poll_interval = 30, sm_last_read_time = utc 2025 1 6 11 0\<rparr>"

definition event_ids :: "nat \<Rightarrow> string \<times> datetime" where
  "event_ids k = (''ev'' @ zpad 2 k, monday_noon)"

definition alert_ids :: "nat \<Rightarrow> string \<times> datetime" where
  "alert_ids k = (''al'' @ zpad 2 k, monday_noon)"

definition failed_login_event :: TimelineEvent where
  "failed_login_event =
     \<lparr>ev_id = ''ev00'', ev_source = SESSION_MONITOR, ev_category = SESSION,
      ev_action = LOGIN_FAILED, ev_subject = [], ev_target = [],
      ev_detail = [(''event_id'', JInt 4625), (''source'', JStr ''Security''),
                   (''message'', JStr ''bad password'')],
      ev_severity = ''HIGH'', ev_timestamp = utc 2025 1 6 11 59\<rparr>"

definition empty_store :: Store where
  "empty_store = \<lparr>tbl_timeline_events = [], tbl_alerts = [], tbl_settings = []\<rparr>"

definition test_alert :: "string \<Rightarrow> Alert" where
  "test_alert i = Alert_new (i, monday_noon) HIGH ''test alert'' ''test'' []"


text \<open>A bounded bus of capacity one that already holds an event.\<close>

definition full_bus :: EventBus where
  "full_bus = \<lparr>maxsize = 1, queue = [failed_login_event], running = True\<rparr>"

text \<open>
  A notifier with one pending alert, and a second alert that arrives while the batch
  is being sent.
\<close>

definition notifier0 :: EmailNotifier where
  "notifier0 = \<lparr>throttle = timedelta_minutes 5, last_sent = None, pending = [test_alert ''a1'']\<rparr>"

text \<open>
  The same notifier one minute after a successful send: the alert \<open>a1\<close> was
  throttled and waits in \<open>pending\<close>.
\<close>

definition notifier1 :: EmailNotifier where
  "notifier1 =
     \<lparr>throttle = timedelta_minutes 5, last_sent = Some (utc 2025 1 6 11 59),
      pending = [test_alert ''a1'']\<rparr>"

text \<open>
  An input monitor configured with the disabled window only, one active sample into
  a streak, with the default poll interval and threshold.
\<close>

definition input_monitor0 :: InputMonitor where
  "input_monitor0 =
     \<lparr>im_poll_interval = 5, im_away_windows = [office_hours_disabled],
      im_streak_threshold = 10, im_active_streak = 5\<rparr>"

text \<open>
  An injected reader that answers every query on the Security log with one logon of
  10:00, whatever \<open>since\<close> is; and a Security log with a failed login of 11:59
  followed (read backwards) by a logon of 10:30.
\<close>

definition stale_reader :: "string \<Rightarrow> int set \<Rightarrow> datetime \<Rightarrow> RawRecord list" where
  "stale_reader log_type wanted since =
     (if log_type = ''Security''
      then [\<lparr>rec_event_id = Some 4624, rec_timestamp = Some (utc 2025 1 6 10 0),
              rec_source = Some ''Security'', rec_message = Some ''logon''\<rparr>]
      else [])"

definition mixed_log :: "string \<Rightarrow> read_result list" where
  "mixed_log log_type =
     (if log_type = ''Security''
      then [Entries [\<lparr>TimeGenerated = utc 2025 1 6 11 59, EventID = 4625,
                       SourceName = ''Security'', Message = ''bad password''\<rparr>,
                     \<lparr>TimeGenerated = utc 2025 1 6 10 30, EventID = 4624,
                       SourceName = ''Security'', Message = ''logon''\<rparr>]]
      else [])"

definition just_before :: datetime where
  "just_before = (utc 2025 1 6 11 58)\<lparr>second := 59\<rparr>"

definition just_after :: datetime where
  "just_after = (utc 2025 1 6 11 59)\<lparr>second := 29\<rparr>"

text \<open>
  A store with one alert, and a store with three file events: of Monday 11:00, of
  Monday 12:00 and of Monday 13:00, all UTC. Two \<open>since\<close> arguments for the same
  instant: 12:00 at the offset \<open>+00:00\<close>, and 14:00 at the offset \<open>+02:00\<close>. A
  Remote Desktop session of Monday 12:00.
\<close>

definition alert_store :: Store where
  "alert_store = (case insert_alert (test_alert ''a1'') empty_store of Inl _ \<Rightarrow> empty_store | Inr s \<Rightarrow> s)"

definition file_event :: "string \<Rightarrow> datetime \<Rightarrow> TimelineEvent" where
  "file_event i t =
     \<lparr>ev_id = i, ev_source = FOLDER_MONITOR, ev_category = FILE_SYSTEM, ev_action = FILE_CREATED,
      ev_subject = [], ev_target = ''/tmp/test.txt'', ev_detail = [], ev_severity = ''INFO'',
      ev_timestamp = t\<rparr>"

definition store_of :: "TimelineEvent list \<Rightarrow> Store" where
  "store_of events =
     fold (\<lambda>e st. case insert_event e st of Inl _ \<Rightarrow> st | Inr s \<Rightarrow> s) events empty_store"

definition three_events :: Store where
  "three_events =
     store_of [file_event ''e1'' (utc 2025 1 6 11 0), file_event ''e2'' monday_noon,
               file_event ''e3'' (utc 2025 1 6 13 0)]"

definition with_offset :: "datetime \<Rightarrow> int option \<Rightarrow> tz_datetime" where
  "with_offset d off = datetime.extend d (tz_datetime.fields off)"

definition since_noon_utc :: tz_datetime where
  "since_noon_utc = with_offset monday_noon (Some 0)"

definition since_two_pm_plus2 :: tz_datetime where
  "since_two_pm_plus2 = with_offset (utc 2025 1 6 14 0) (Some 120)"

definition rdp_event :: TimelineEvent where
  "rdp_event =
     \<lparr>ev_id = ''ev01'', ev_source = SESSION_MONITOR, ev_category = SESSION,
      ev_action = SESSION_RDP, ev_subject = [], ev_target = [],
      ev_detail = [], ev_severity = ''MEDIUM'', ev_timestamp = monday_noon\<rparr>"

section \<open>Predicates of the statements\<close>

text \<open>
  The built-in readers are all but the injected \<open>read_log_fn\<close>. A record is later than
  \<open>since\<close> when it has an identifier and a timestamp strictly after \<open>since\<close>.
\<close>

text \<open>
  The instant of a datetime that carries an offset, in microseconds: two aware
  datetimes are equal in Python when their instants are.
\<close>

definition tz_instant :: "tz_datetime \<Rightarrow> int option" where
  "tz_instant s =
     map_option (\<lambda>m. to_microseconds (datetime.truncate s) - m * 60 * 1000000) (utcoffset s)"

fun builtin :: "reader \<Rightarrow> bool" where
  "builtin (Injected f) = False"
| "builtin NotWindows = True"
| "builtin NoPywin32 = True"
| "builtin (Win32Log logs) = True"

definition later_record :: "datetime \<Rightarrow> RawRecord \<Rightarrow> bool" where
  "later_record since r =
     (rec_event_id r \<noteq> None \<and>
      (case rec_timestamp r of None \<Rightarrow> False | Some t \<Rightarrow> dt_less since t))"

section \<open>Evaluating the concrete inputs\<close>

lemma zpad_numeral:
  "zpad (numeral k) n = zpad (pred_numeral k) (n div 10) @ [digit_char (n mod 10)]"
  by (simp only: numeral_eq_Suc zpad.simps)

lemmas cal_defs = weekday_def toordinal_def days_before_year_def days_before_month_def is_leap_def

lemmas input_defs = utc_def monday_noon_def monday_late_def saturday_noon_def window_def
  office_hours_def overnight_def empty_interval_def working_days_def office_hours_disabled_def

lemmas bounds_defs = window_start_def window_end_def minute_of_day_def

lemmas session_defs = session_poll_def fetch_all_def read_events_blocking_def
  SECURITY_EVENTS_def SYSTEM_EVENTS_def RDP_EVENTS_def session_monitor0_def dt_le_def dt_less_def
  dt_key_def lookup_action_def session_event_def TimelineEvent_new_def event_ids_def
  digit_char_def zpad_numeral

lemmas store_defs = alert_store_def insert_alert_def empty_store_def test_alert_def Alert_new_def
  alert_row_def snooze_alert_def

section \<open>Away windows\<close>

text \<open>
  C7. For an enabled window \<open>w\<close> and an instant \<open>t\<close> on a weekday listed in
  \<open>days w\<close>, with \<open>start\<close> and \<open>end\<close> the bounds in minutes and \<open>m\<close> the minute of
  the day of \<open>t\<close>: if \<open>start = end\<close> then \<open>t\<close> is not inside \<open>w\<close>; if
  \<open>start < end\<close> then \<open>t\<close> is inside iff \<open>start \<le> m < end\<close>; if \<open>start > end\<close> then
  \<open>t\<close> is inside iff \<open>m \<ge> start\<close> or \<open>m < end\<close>. On a weekday not listed in
  \<open>days w\<close> no instant is inside \<open>w\<close>.
\<close>

theorem away_window_membership:
  assumes "enabled w"
  shows "(weekday t \<in> set (days w) \<longrightarrow>
            (window_start w = window_end w \<longrightarrow> \<not> is_within_away_window t [w]) \<and>
            (window_start w < window_end w \<longrightarrow>
               is_within_away_window t [w]
                 = (window_start w \<le> minute_of_day t \<and> minute_of_day t < window_end w)) \<and>
            (window_start w > window_end w \<longrightarrow>
               is_within_away_window t [w]
                 = (minute_of_day t \<ge> window_start w \<or> minute_of_day t < window_end w)))
         \<and> (weekday t \<notin> set (days w) \<longrightarrow> \<not> is_within_away_window t [w])"
  by (auto simp: bounds_defs Let_def)

theorem away_window_membership_witness:
  "enabled office_hours \<and> weekday monday_noon \<in> set (days office_hours)
     \<and> window_start office_hours < window_end office_hours
     \<and> is_within_away_window monday_noon [office_hours]
   \<and> enabled overnight \<and> weekday monday_late \<in> set (days overnight)
     \<and> window_start overnight > window_end overnight
     \<and> is_within_away_window monday_late [overnight]
     \<and> \<not> is_within_away_window monday_noon [overnight]
   \<and> enabled empty_interval \<and> weekday monday_noon \<in> set (days empty_interval)
     \<and> window_start empty_interval = window_end empty_interval
     \<and> \<not> is_within_away_window monday_noon [empty_interval]
   \<and> enabled working_days \<and> weekday saturday_noon \<notin> set (days working_days)
     \<and> \<not> is_within_away_window saturday_noon [working_days]"
  using away_window_membership [of office_hours monday_noon]
    away_window_membership [of overnight monday_late]
    away_window_membership [of overnight monday_noon]
    away_window_membership [of empty_interval monday_noon]
    away_window_membership [of working_days saturday_noon]
  by (simp add: input_defs bounds_defs cal_defs)

text \<open>
  C3. The claim: a window whose \<open>enabled\<close> field is false is ignored by the membership
  test. The code never reads the field: on Monday 2025-01-06 at 12:00 the list holding
  only the disabled window 09:00-17:00 covers the instant, while the sub-list of its
  enabled windows, which is empty, covers nothing.
\<close>

theorem disabled_window_still_covers:
  "\<not> enabled office_hours_disabled
   \<and> is_within_away_window monday_noon [office_hours_disabled]
   \<and> filter enabled [office_hours_disabled] = []
   \<and> \<not> is_within_away_window monday_noon (filter enabled [office_hours_disabled])"
  by (simp add: input_defs cal_defs)

text \<open>
  In general, the list covers an instant exactly when one of its windows does, and
  the answer does not depend on any \<open>enabled\<close> field.
\<close>

lemma is_within_away_window_iff:
  "is_within_away_window t ws = list_ex (window_covers t) ws"
  by (induction ws) (auto simp: window_covers_def bounds_defs Let_def)

lemma window_covers_enabled [simp]:
  "window_covers t (w\<lparr>enabled := b\<rparr>) = window_covers t w"
  by (simp add: window_covers_def bounds_defs)

lemma is_within_away_window_enabled:
  "is_within_away_window t (map (\<lambda>w. w\<lparr>enabled := b\<rparr>) ws) = is_within_away_window t ws"
  by (simp add: is_within_away_window_iff list_ex_iff)

section \<open>Rule evaluation\<close>

text \<open>
  The engine against the rule table, when every configured window is enabled: the
  alerts are, in order, one alert for each rule of R1..R4 whose condition holds on the
  event, with that rule's severity and message, and no other alert.
\<close>

lemma in_away_enabled:
  "list_all enabled ws \<Longrightarrow> in_away ws t = spec_in_away ws t"
  by (cases ws) (simp_all add: in_away_def spec_in_away_def is_within_away_window_iff
      list_all_iff filter_id_conv del: is_within_away_window.simps)

lemma evaluate_rule_table:
  assumes "list_all enabled ws"
  shows "map (\<lambda>a. (alert_severity a, alert_message a)) (evaluate ws fresh e)
     = map (\<lambda>r. (rule_severity r, rule_message e r)) (filter (rule_condition ws e) [R1, R2, R3, R4])"
  using in_away_enabled [OF assms, of "ev_timestamp e"]
  by (simp add: evaluate_def Alert_new_def)

text \<open>
  C2. The claim: rule evaluation fires exactly the rules of R1..R4 whose conditions
  hold, where R1 and R4 need the event's instant to be within an away window. With
  the disabled window 09:00-17:00 as the only window, no rule's condition holds on a
  file creation or on a Remote Desktop session of Monday 12:00: the window is to be
  ignored. The engine fires R1 on the first (one HIGH alert) and R4 on the second (one
  CRITICAL alert).
\<close>

theorem evaluate_fires_on_disabled_window:
  "filter (rule_condition [office_hours_disabled] (file_event ''e2'' monday_noon)) [R1, R2, R3, R4] = []
   \<and> map alert_severity (evaluate [office_hours_disabled] alert_ids (file_event ''e2'' monday_noon))
       = [HIGH]
   \<and> filter (rule_condition [office_hours_disabled] rdp_event) [R1, R2, R3, R4] = []
   \<and> map alert_severity (evaluate [office_hours_disabled] alert_ids rdp_event) = [CRITICAL]"
  by (simp add: spec_in_away_def evaluate_def in_away_def Alert_new_def file_event_def
      rdp_event_def input_defs cal_defs)

text \<open>
  C1. The claim: every persisted alert carries in \<open>detail\<close> the entry \<open>event_id\<close>
  equal to the identifier of its event. The session monitor publishes, for the failed
  login of the Security log, an event whose own \<open>detail\<close> has the key \<open>event_id\<close>
  (the Windows event identifier 4625). Handling that event stores the event under its
  identifier and one alert, whose \<open>detail\<close> has \<open>event_id\<close> 4625: the event's entry
  has replaced the identifier that rule R3 stored first.
\<close>

theorem failed_login_alert_loses_event_id:
  "snd (session_poll (Win32Log failed_login_log) event_ids monday_noon session_monitor0)
     = [failed_login_event]
   \<and> map row_id (tbl_timeline_events (fst (handle_event [] alert_ids True failed_login_event empty_store)))
     = [ev_id failed_login_event]
   \<and> map (\<lambda>r. dict_get (arow_detail r) ''event_id'')
        (tbl_alerts (fst (handle_event [] alert_ids True failed_login_event empty_store)))
     = [Some (JInt 4625)]
   \<and> JInt 4625 \<noteq> JStr (ev_id failed_login_event)"
proof -
  have published:
    "snd (session_poll (Win32Log failed_login_log) event_ids monday_noon session_monitor0)
       = [failed_login_event]"
    by (simp add: session_poll_def fetch_all_def read_events_blocking_def failed_login_log_def
        SECURITY_EVENTS_def SYSTEM_EVENTS_def RDP_EVENTS_def session_monitor0_def dt_le_def
        dt_key_def utc_def lookup_action_def session_event_def TimelineEvent_new_def
        event_ids_def digit_char_def zpad_numeral failed_login_event_def monday_noon_def)
  have handled:
    "fst (handle_event [] alert_ids True failed_login_event empty_store)
       = \<lparr>tbl_timeline_events = [event_row failed_login_event],
          tbl_alerts = [alert_row (Alert_new (alert_ids 0) HIGH ''Failed login attempt detected''
             ''session_monitor'' (ev_detail failed_login_event))],
          tbl_settings = []\<rparr>"
    by (simp add: handle_event_def insert_event_def empty_store_def evaluate_def in_away_def
        insert_alert_def failed_login_event_def dict_unpack_def)
  show ?thesis
    unfolding handled published
    by (simp add: event_row_def alert_row_def Alert_new_def dict_get_def failed_login_event_def)
qed

section \<open>The event bus\<close>

text \<open>
  C4, the claim as stated fails: on a bounded bus whose queue is full, \<open>publish\<close>
  does not fail with \<open>BackpressureExceeded\<close>; the caller is suspended.
\<close>

theorem publish_full_bus_suspends:
  "0 < maxsize full_bus \<and> full full_bus
   \<and> publish full_bus failed_login_event = Inr Suspended
   \<and> publish full_bus failed_login_event \<noteq> Inl BackpressureExceeded"
  by (simp add: full_bus_def full_def publish_def)

text \<open>
  C4, amended. \<open>publish\<close> never fails. It enqueues the event at the back of the queue
  if and only if the bus is unbounded (\<open>maxsize \<le> 0\<close>) or bounded with spare capacity,
  and it suspends the caller if and only if the bus is bounded and its queue is full.
\<close>

theorem publish_never_fails:
  "publish bus event \<noteq> Inl err
   \<and> (publish bus event = Inr (Enqueued (bus\<lparr>queue := queue bus @ [event]\<rparr>))
        \<longleftrightarrow> (maxsize bus \<le> 0 \<or> int (length (queue bus)) < maxsize bus))
   \<and> (publish bus event = Inr Suspended
        \<longleftrightarrow> (0 < maxsize bus \<and> maxsize bus \<le> int (length (queue bus))))"
  by (auto simp: publish_def full_def)

section \<open>The email notifier\<close>

text \<open>
  C6, the claim as stated fails. When the send of the snapshot \<open>[a1]\<close> fails and
  \<open>a2\<close> was appended during the send, \<open>pending\<close> is \<open>[a2, a1]\<close>: the snapshot
  stands behind the alert that arrived, not ahead of it. And the next \<open>notify\<close> need
  not retry: after a flush that failed one minute after the last successful send,
  the \<open>notify\<close> of \<open>a3\<close> is throttled and sends nothing.
\<close>

theorem send_batch_failure_order:
  "pending (fst (send_batch RaisedBeforeDelivery [test_alert ''a2''] monday_noon notifier0))
     = [test_alert ''a2'', test_alert ''a1'']
   \<and> pending (fst (send_batch RaisedBeforeDelivery [test_alert ''a2''] monday_noon notifier0))
     \<noteq> pending notifier0 @ [test_alert ''a2'']
   \<and> flush RaisedBeforeDelivery [] monday_noon notifier1 = (notifier1, None)
   \<and> notify (test_alert ''a3'') monday_noon Sent [] monday_noon notifier1
       = (notifier1\<lparr>pending := [test_alert ''a1'', test_alert ''a3'']\<rparr>, None)"
  by (simp add: send_batch_def flush_def notify_def throttled_def notifier0_def notifier1_def
      test_alert_def Alert_new_def to_microseconds_def timedelta_minutes_def input_defs cal_defs)

lemma throttled_pending [simp]:
  "throttled (n\<lparr>pending := p\<rparr>) now = throttled n now"
  by (simp add: throttled_def split: option.splits)

lemma send_batch_sent_body:
  "pending n \<noteq> [] \<Longrightarrow> map_option body_alerts (snd (send_batch Sent arrived t n)) = Some (pending n)"
  by (cases "pending n") (simp_all add: send_batch_def Let_def)

text \<open>
  C6, amended. When \<open>_send_batch\<close> fails at the SMTP transport, \<open>last_sent\<close> is left
  unchanged, no alert of the snapshot is lost, and the snapshot is appended to the
  back of \<open>pending\<close>, behind the alerts appended during the send; so the next flush,
  and the next notify that is not throttled, sends those alerts again, after the
  ones that arrived during the send.
\<close>

theorem send_batch_failure_requeues:
  assumes "pending n \<noteq> []" and "smtp \<noteq> Sent"
  shows "fst (send_batch smtp arrived sent_at n) = n\<lparr>pending := arrived @ pending n\<rparr>
    \<and> last_sent (fst (send_batch smtp arrived sent_at n)) = last_sent n
    \<and> set (pending n) \<subseteq> set (pending (fst (send_batch smtp arrived sent_at n)))
    \<and> map_option body_alerts (snd (flush Sent [] t (fst (send_batch smtp arrived sent_at n))))
        = Some (arrived @ pending n)
    \<and> (\<not> throttled n now \<longrightarrow>
         map_option body_alerts
           (snd (notify alert now Sent [] t (fst (send_batch smtp arrived sent_at n))))
          = Some (arrived @ pending n @ [alert]))"
proof -
  let ?n' = "n\<lparr>pending := arrived @ pending n\<rparr>"
  have requeued: "fst (send_batch smtp arrived sent_at n) = ?n'"
    using assms by (cases "pending n"; cases smtp) (simp_all add: send_batch_def Let_def)
  have flushed: "map_option body_alerts (snd (flush Sent [] t ?n')) = Some (arrived @ pending n)"
    using assms(1) by (simp add: flush_def send_batch_sent_body)
  have notified: "\<not> throttled n now \<Longrightarrow>
      map_option body_alerts (snd (notify alert now Sent [] t ?n')) = Some (arrived @ pending n @ [alert])"
    by (simp add: notify_def Let_def send_batch_sent_body)
  show ?thesis
    unfolding requeued using flushed notified by auto
qed

theorem send_batch_failure_requeues_witness:
  "pending notifier0 \<noteq> [] \<and> RaisedAfterDelivery \<noteq> Sent \<and> \<not> throttled notifier0 monday_late
   \<and> fst (send_batch RaisedAfterDelivery [test_alert ''a2''] monday_noon notifier0)
       = notifier0\<lparr>pending := [test_alert ''a2''] @ pending notifier0\<rparr>
   \<and> last_sent (fst (send_batch RaisedAfterDelivery [test_alert ''a2''] monday_noon notifier0)) = None
   \<and> map_option body_alerts
        (snd (flush Sent [] monday_late
           (fst (send_batch RaisedAfterDelivery [test_alert ''a2''] monday_noon notifier0))))
       = Some [test_alert ''a2'', test_alert ''a1'']
   \<and> map_option body_alerts
        (snd (notify (test_alert ''a3'') monday_late Sent [] monday_late
           (fst (send_batch RaisedAfterDelivery [test_alert ''a2''] monday_noon notifier0))))
       = Some [test_alert ''a2'', test_alert ''a1'', test_alert ''a3'']"
proof -
  have hyps: "pending notifier0 \<noteq> []" "RaisedAfterDelivery \<noteq> Sent"
    "\<not> throttled notifier0 monday_late" "pending notifier0 = [test_alert ''a1'']"
    "last_sent notifier0 = None"
    by (simp_all add: notifier0_def throttled_def)
  show ?thesis
    using send_batch_failure_requeues [OF hyps(1,2), of "[test_alert ''a2'']" monday_noon
        monday_late monday_late "test_alert ''a3''"] hyps
    by (elim conjE) (simp del: map_option_eq_Some)
qed

section \<open>The input monitor\<close>

text \<open>
  One sample, by cases. An active sample adds the poll interval to the streak; it
  publishes \<open>active_during_away\<close> and resets the streak when the new streak reaches the
  threshold and the list of windows covers \<open>now\<close>, publishes \<open>input_detected\<close> when
  otherwise the new streak equals the poll interval, and publishes nothing otherwise.
  An idle sample publishes \<open>idle_started\<close> exactly when the streak was positive, and
  resets the streak.
\<close>

lemma input_poll_active:
  assumes "idle < im_poll_interval m"
  shows "input_poll (Some idle) now fresh m =
     (let streak = im_active_streak m + im_poll_interval m
      in if streak \<ge> im_streak_threshold m \<and> in_away (im_away_windows m) now
         then (m\<lparr>im_active_streak := 0\<rparr>,
               [TimelineEvent_new fresh INPUT_MONITOR USER_INPUT ACTIVE_DURING_AWAY
                  [(''idle_seconds'', JFloat idle), (''streak_seconds'', JFloat streak)] ''MEDIUM''])
         else if streak = im_poll_interval m
         then (m\<lparr>im_active_streak := streak\<rparr>,
               [TimelineEvent_new fresh INPUT_MONITOR USER_INPUT INPUT_DETECTED
                  [(''idle_seconds'', JFloat idle)] ''INFO''])
         else (m\<lparr>im_active_streak := streak\<rparr>, []))"
  using assms by (simp add: input_poll_def in_away_def Let_def)

lemma input_poll_idle:
  assumes "\<not> idle < im_poll_interval m"
  shows "input_poll (Some idle) now fresh m =
     (m\<lparr>im_active_streak := 0\<rparr>,
      if im_active_streak m > 0
      then [TimelineEvent_new fresh INPUT_MONITOR USER_INPUT IDLE_STARTED
              [(''last_active_streak'', JFloat (im_active_streak m))] ''INFO'']
      else [])"
  using assms by (simp add: input_poll_def)

text \<open>
  C8. The claim: an active sample publishes \<open>active_during_away\<close> when the streak
  reaches the threshold and an enabled away window covers \<open>now\<close>, and otherwise
  \<open>input_detected\<close> or nothing. With the disabled window 09:00-17:00 as the only
  window, a streak of 5 s, a poll interval of 5 s and a threshold of 10 s, the active
  sample of Monday 12:00 publishes \<open>active_during_away\<close> and resets the streak,
  though no enabled window covers the instant.
\<close>

theorem input_poll_disabled_window_alerts:
  "filter enabled (im_away_windows input_monitor0) = []
   \<and> map ev_action (snd (input_poll (Some 0) monday_noon (event_ids 0) input_monitor0))
       = [ACTIVE_DURING_AWAY]
   \<and> im_active_streak (fst (input_poll (Some 0) monday_noon (event_ids 0) input_monitor0)) = 0"
  by (simp add: input_poll_def input_monitor0_def input_defs cal_defs TimelineEvent_new_def)

section \<open>The session monitor\<close>

text \<open>
  C5, the claim as stated fails. A record that the reader returns with a timestamp
  not later than \<open>last_read_time\<close> is published: the poll loop filters nothing. And
  a record is emitted twice when it is stamped after the \<open>now\<close> of the cycle that
  first read it: the high-water mark moves to that \<open>now\<close>, so the next cycle reads
  the record again.
\<close>

theorem session_poll_stale_and_twice:
  "map ev_timestamp (snd (session_poll (Injected stale_reader) event_ids monday_noon session_monitor0))
     = [utc 2025 1 6 10 0]
   \<and> dt_le (utc 2025 1 6 10 0) (sm_last_read_time session_monitor0)
   \<and> map ev_detail (snd (session_poll (Win32Log failed_login_log) event_ids just_before session_monitor0))
     = [ev_detail failed_login_event]
   \<and> map ev_detail (snd (session_poll (Win32Log failed_login_log) event_ids just_after
         (fst (session_poll (Win32Log failed_login_log) event_ids just_before session_monitor0))))
     = [ev_detail failed_login_event]"
  by (simp add: session_defs stale_reader_def failed_login_log_def failed_login_event_def
      just_before_def just_after_def input_defs)

text \<open>
  With an injected reader the poll publishes what the reader returns for the three
  logs, unfiltered.
\<close>

lemma injected_poll_as_returned:
  "snd (session_poll (Injected f) fresh now m)
     = fst (publish_records fresh now []
         (f ''Security'' (set (map fst SECURITY_EVENTS)) (sm_last_read_time m)
          @ f ''System'' (set (map fst SYSTEM_EVENTS)) (sm_last_read_time m)
          @ f ''Microsoft-Windows-TerminalServices-LocalSessionManager/Operational''
              (set (map fst RDP_EVENTS)) (sm_last_read_time m)))"
  by (simp add: session_poll_def fetch_all_def read_events_blocking_def Let_def split: prod.splits bool.splits)

text \<open>The built-in reader returns only records later than \<open>since\<close>.\<close>

lemma not_dt_le: "\<not> dt_le a b \<Longrightarrow> dt_less b a"
  by (simp add: dt_le_def dt_less_def not_le)

lemma scan_entries_later:
  "list_all (later_record since) results \<Longrightarrow>
   list_all (later_record since) (fst (scan_entries ids since results es))"
  by (induction es arbitrary: results) (auto simp: Let_def later_record_def not_dt_le)

lemma read_log_later:
  "list_all (later_record since) results \<Longrightarrow>
   list_all (later_record since) (read_log ids since results reads)"
proof (induction ids since results reads rule: read_log.induct)
  case (4 event_ids since results e es reads)
  have "list_all (later_record since) (fst (scan_entries event_ids since results (e # es)))"
    using "4.prems" by (rule scan_entries_later)
  then show ?case
    using "4.IH" by (cases "scan_entries event_ids since results (e # es)") (auto split: bool.splits)
qed simp_all

lemma read_events_blocking_later:
  "builtin rd \<Longrightarrow> list_all (later_record since) (read_events_blocking rd log_type ids since)"
  by (cases rd) (simp_all add: read_events_blocking_def read_log_later)

lemma fetch_all_later:
  "builtin rd \<Longrightarrow> list_all (later_record since) (fetch_all rd since)"
  by (simp add: fetch_all_def Let_def read_events_blocking_later)

text \<open>
  Publishing records that are all later than \<open>since\<close> never meets a missing
  identifier, and publishes only events later than \<open>since\<close>.
\<close>

lemma publish_records_later:
  "list_all (later_record since) raws \<Longrightarrow>
   list_all (\<lambda>e. dt_less since (ev_timestamp e)) published \<Longrightarrow>
   list_all (\<lambda>e. dt_less since (ev_timestamp e)) (fst (publish_records fresh now published raws))
   \<and> snd (publish_records fresh now published raws)"
proof (induction raws arbitrary: published)
  case Nil
  then show ?case by simp
next
  case (Cons raw raws)
  then show ?case
    by (auto simp: later_record_def session_event_def TimelineEvent_new_def
        split: option.splits)
qed

text \<open>
  C5, amended. In every poll cycle that reads the logs with the built-in reader,
  records whose timestamp is not later than \<open>last_read_time\<close> are suppressed: every
  event published is strictly later than \<open>last_read_time\<close>, and the cycle moves
  \<open>last_read_time\<close> to the \<open>now\<close> captured at its start.
\<close>

theorem builtin_poll_publishes_only_later:
  assumes "builtin rd"
  shows "(\<forall>e \<in> set (snd (session_poll rd fresh now m)).
            dt_less (sm_last_read_time m) (ev_timestamp e))
         \<and> sm_last_read_time (fst (session_poll rd fresh now m)) = now"
proof -
  let ?since = "sm_last_read_time m"
  have recs: "list_all (later_record ?since) (fetch_all rd ?since)"
    using assms by (rule fetch_all_later)
  have pub: "list_all (\<lambda>e. dt_less ?since (ev_timestamp e))
               (fst (publish_records fresh now [] (fetch_all rd ?since)))
             \<and> snd (publish_records fresh now [] (fetch_all rd ?since))"
    using recs by (rule publish_records_later) simp
  show ?thesis
    using pub
    by (cases "publish_records fresh now [] (fetch_all rd ?since)")
       (auto simp: session_poll_def Let_def list_all_iff)
qed

theorem builtin_poll_publishes_only_later_witness:
  "builtin (Win32Log mixed_log)
   \<and> map ev_timestamp (snd (session_poll (Win32Log mixed_log) event_ids monday_noon session_monitor0))
       = [utc 2025 1 6 11 59]
   \<and> dt_less (sm_last_read_time session_monitor0) (utc 2025 1 6 11 59)
   \<and> sm_last_read_time (fst (session_poll (Win32Log mixed_log) event_ids monday_noon session_monitor0))
       = monday_noon"
  using builtin_poll_publishes_only_later [of "Win32Log mixed_log" event_ids monday_noon session_monitor0]
  by (simp add: session_defs mixed_log_def input_defs)

section \<open>The store: snoozing\<close>

text \<open>
  C9, the claim as stated fails: an alert snoozed until Monday 23:30 and then snoozed
  until Monday 12:00 holds 12:00, an earlier instant; both calls succeed.
\<close>

theorem snooze_alert_moves_earlier:
  "snd (snooze_alert ''a1'' monday_late alert_store)
   \<and> map arow_snoozed_until (tbl_alerts (fst (snooze_alert ''a1'' monday_late alert_store)))
       = [Some (isoformat monday_late)]
   \<and> snd (snooze_alert ''a1'' monday_noon (fst (snooze_alert ''a1'' monday_late alert_store)))
   \<and> map arow_snoozed_until
        (tbl_alerts (fst (snooze_alert ''a1'' monday_noon (fst (snooze_alert ''a1'' monday_late alert_store)))))
       = [Some (isoformat monday_noon)]
   \<and> dt_less monday_noon monday_late
   \<and> isoformat monday_noon < isoformat monday_late"
  by (simp add: store_defs input_defs isoformat_def zpad_numeral digit_char_def dt_less_def dt_key_def)

lemma find_snoozed:
  "find (\<lambda>r. arow_id r = aid)
     (map (\<lambda>r. if arow_id r = aid then r\<lparr>arow_snoozed_until := Some v\<rparr> else r) rows)
   = map_option (\<lambda>r. r\<lparr>arow_snoozed_until := Some v\<rparr>) (find (\<lambda>r. arow_id r = aid) rows)"
  by (induction rows) auto

lemma filter_others_snoozed:
  "filter (\<lambda>r. arow_id r \<noteq> aid)
     (map (\<lambda>r. if arow_id r = aid then r\<lparr>arow_snoozed_until := Some v\<rparr> else r) rows)
   = filter (\<lambda>r. arow_id r \<noteq> aid) rows"
  by (induction rows) auto

lemma find_filter_nonempty:
  "filter P rows \<noteq> [] \<Longrightarrow> find P rows \<noteq> None"
  by (induction rows) auto

text \<open>
  C9, amended. A successful \<open>snooze_alert(id, until)\<close> replaces the stored
  \<open>snoozed_until\<close> of the alert by \<open>until\<close>, whatever was stored before, and leaves
  every other alert as it was; of two snoozes of the same alert the later call wins.
\<close>

theorem snooze_alert_overwrites:
  assumes "snd (snooze_alert aid until st)"
  shows "map_option arow_snoozed_until (get_alert_by_id aid (fst (snooze_alert aid until st)))
           = Some (Some (isoformat until))
    \<and> filter (\<lambda>r. arow_id r \<noteq> aid) (tbl_alerts (fst (snooze_alert aid until st)))
        = filter (\<lambda>r. arow_id r \<noteq> aid) (tbl_alerts st)
    \<and> fst (snooze_alert aid until (fst (snooze_alert aid before st)))
        = fst (snooze_alert aid until st)"
proof -
  from assms have "find (\<lambda>r. arow_id r = aid) (tbl_alerts st) \<noteq> None"
    by (intro find_filter_nonempty) (simp add: snooze_alert_def)
  then have stored:
    "map_option arow_snoozed_until (get_alert_by_id aid (fst (snooze_alert aid until st)))
       = Some (Some (isoformat until))"
    by (auto simp: snooze_alert_def get_alert_by_id_def find_snoozed)
  have others:
    "filter (\<lambda>r. arow_id r \<noteq> aid) (tbl_alerts (fst (snooze_alert aid until st)))
       = filter (\<lambda>r. arow_id r \<noteq> aid) (tbl_alerts st)"
    by (simp add: snooze_alert_def filter_others_snoozed)
  have last_wins:
    "fst (snooze_alert aid until (fst (snooze_alert aid before st)))
       = fst (snooze_alert aid until st)"
    by (simp add: snooze_alert_def comp_def)
  show ?thesis using stored others last_wins by simp
qed

theorem snooze_alert_overwrites_witness:
  "snd (snooze_alert ''a1'' monday_noon (fst (snooze_alert ''a1'' monday_late alert_store)))
   \<and> map_option arow_snoozed_until
        (get_alert_by_id ''a1''
           (fst (snooze_alert ''a1'' monday_noon (fst (snooze_alert ''a1'' monday_late alert_store)))))
       = Some (Some ''2025-01-06T12:00:00+00:00'')"
  using snooze_alert_overwrites [of "''a1''" monday_noon
      "fst (snooze_alert ''a1'' monday_late alert_store)" monday_late]
  by (simp add: store_defs input_defs isoformat_def zpad_numeral digit_char_def)

section \<open>The store: the order of ISO texts\<close>

text \<open>
  The store compares timestamps as texts. For valid datetimes the text order of
  \<open>isoformat\<close> is the order of the instants: all fields are zero-padded to a fixed
  width, and a text without microseconds continues with \<open>+\<close>, which is below the
  \<open>.\<close> of a text with microseconds.
\<close>

lemma digit_char_code:
  assumes "n < 10"
  shows "(of_char (digit_char n) :: nat) = 48 + n"
proof -
  have "\<forall>k \<in> set [0..<10]. (of_char (digit_char k) :: nat) = 48 + k"
    by (simp add: upt_rec digit_char_def)
  then show ?thesis
    using assms by simp
qed

lemma digit_char_less:
  "n < 10 \<Longrightarrow> m < 10 \<Longrightarrow> (digit_char n < digit_char m) = (n < m)"
  by (simp add: less_char_def digit_char_code)

lemma digit_char_eq:
  assumes "n < 10" "m < 10"
  shows "(digit_char n = digit_char m) = (n = m)"
proof
  assume "digit_char n = digit_char m"
  then have "(of_char (digit_char n) :: nat) = of_char (digit_char m)" by simp
  then show "n = m" using assms by (simp add: digit_char_code)
qed simp

lemma length_zpad [simp]: "length (zpad w n) = w"
  by (induction w arbitrary: n) simp_all

lemma append_less_same_length:
  "length a = length b \<Longrightarrow> (a @ x < b @ y) = (a < b \<or> a = b \<and> x < (y :: 'a :: linorder list))"
  by (induction a b rule: list_induct2) auto

lemma zpad_eq:
  "n < 10 ^ w \<Longrightarrow> m < 10 ^ w \<Longrightarrow> (zpad w n = zpad w m) = (n = m)"
proof (induction w arbitrary: n m)
  case 0
  then show ?case by simp
next
  case (Suc w)
  have d: "n div 10 < 10 ^ w" "m div 10 < 10 ^ w"
    using Suc.prems by (simp_all add: less_mult_imp_div_less mult.commute)
  have "(zpad (Suc w) n = zpad (Suc w) m)
          = (n div 10 = m div 10 \<and> n mod 10 = m mod 10)"
    using Suc.IH [OF d] by (simp add: digit_char_eq)
  also have "\<dots> = (n = m)"
    by (metis div_mult_mod_eq)
  finally show ?case .
qed

lemma lex_base10:
  "b < 10 \<Longrightarrow> d < 10 \<Longrightarrow> (10 * a + b < 10 * c + (d::nat)) = (a < c \<or> a = c \<and> b < d)"
  by arith

lemma zpad_less:
  "n < 10 ^ w \<Longrightarrow> m < 10 ^ w \<Longrightarrow> (zpad w n < zpad w m) = (n < m)"
proof (induction w arbitrary: n m)
  case 0
  then show ?case by simp
next
  case (Suc w)
  have d: "n div 10 < 10 ^ w" "m div 10 < 10 ^ w"
    using Suc.prems by (simp_all add: less_mult_imp_div_less mult.commute)
  have "(zpad (Suc w) n < zpad (Suc w) m)
          = (n div 10 < m div 10 \<or> n div 10 = m div 10 \<and> n mod 10 < m mod 10)"
    using Suc.IH [OF d] zpad_eq [OF d]
    by (simp add: append_less_same_length digit_char_less)
  also have "\<dots> = (10 * (n div 10) + n mod 10 < 10 * (m div 10) + m mod 10)"
    by (rule lex_base10 [symmetric]) simp_all
  also have "\<dots> = (n < m)"
    by simp
  finally show ?case .
qed

lemma fraction_less:
  assumes "u < 10 ^ 6" "v < 10 ^ 6"
  shows "((if u = 0 then [] else ''.'' @ zpad 6 u) @ ''+00:00''
            < (if v = 0 then [] else ''.'' @ zpad 6 v) @ ''+00:00'') = (u < v)"
  using assms zpad_less [of u 6 v] zpad_eq [of u 6 v]
  by (simp add: append_less_same_length)

lemma isoformat_less:
  assumes "valid_datetime a" "valid_datetime b"
  shows "(isoformat a < isoformat b) = dt_less a b"
proof -
  have a: "year a < 10 ^ 4" "month a < 10 ^ 2" "day a < 10 ^ 2" "hour a < 10 ^ 2"
    "minute a < 10 ^ 2" "second a < 10 ^ 2" "microsecond a < 10 ^ 6"
    using assms(1) by (auto simp: valid_datetime_def days_in_month_def nth_Cons' split: if_splits)
  have b: "year b < 10 ^ 4" "month b < 10 ^ 2" "day b < 10 ^ 2" "hour b < 10 ^ 2"
    "minute b < 10 ^ 2" "second b < 10 ^ 2" "microsecond b < 10 ^ 6"
    using assms(2) by (auto simp: valid_datetime_def days_in_month_def nth_Cons' split: if_splits)
  show ?thesis
    unfolding isoformat_def dt_less_def dt_key_def
    using fraction_less [OF a(7) b(7)]
    by (simp only: append_less_same_length length_zpad zpad_less [OF a(1) b(1)] zpad_eq [OF a(1) b(1)]
        zpad_less [OF a(2) b(2)] zpad_eq [OF a(2) b(2)] zpad_less [OF a(3) b(3)] zpad_eq [OF a(3) b(3)]
        zpad_less [OF a(4) b(4)] zpad_eq [OF a(4) b(4)] zpad_less [OF a(5) b(5)] zpad_eq [OF a(5) b(5)]
        zpad_less [OF a(6) b(6)] zpad_eq [OF a(6) b(6)]
        append_Cons append_Nil Cons_less_Cons less_irrefl simp_thms)
qed

section \<open>The store: reading events since an instant\<close>

lemma isoformat_tz_utc:
  "utcoffset s = Some 0 \<Longrightarrow> isoformat_tz s = isoformat (datetime.truncate s)"
  by (simp add: isoformat_tz_def isoformat_def offset_suffix_def zpad_numeral digit_char_def
      datetime.truncate_def)

lemma set_select_events:
  "set (select_events category action since st)
     = {r \<in> set (tbl_timeline_events st). event_matches category action since r}"
  by (simp add: select_events_def order_by_timestamp_desc_def)

lemma limit_offset_whole:
  "offset \<le> 0 \<Longrightarrow> limit < 0 \<or> int (length rows) \<le> limit \<Longrightarrow> limit_offset limit offset rows = rows"
  by (auto simp: limit_offset_def)

lemma three_events_rows:
  "tbl_timeline_events three_events
     = [event_row (file_event ''e1'' (utc 2025 1 6 11 0)), event_row (file_event ''e2'' monday_noon),
        event_row (file_event ''e3'' (utc 2025 1 6 13 0))]"
  by (simp add: three_events_def store_of_def insert_event_def empty_store_def file_event_def event_row_def)

lemmas query_defs = select_events_def order_by_timestamp_desc_def event_matches_def truthy_def
  limit_offset_def in_int64_def event_row_def file_event_def isoformat_def isoformat_tz_def
  offset_suffix_def with_offset_def datetime.extend_def tz_datetime.fields_def
  zpad_numeral digit_char_def

text \<open>
  C10, the claim as stated fails. The filter compares texts, not instants. The
  \<open>since\<close> argument 14:00 at the offset \<open>+02:00\<close> is the instant of the event of 12:00
  UTC, which is persisted, and the event of 13:00 UTC is strictly later; the query
  returns neither.
\<close>

theorem get_events_since_offset_text:
  "tz_instant since_two_pm_plus2 = Some (to_microseconds monday_noon)
   \<and> to_microseconds monday_noon < to_microseconds (utc 2025 1 6 13 0)
   \<and> map row_timestamp (tbl_timeline_events three_events)
       = [isoformat (utc 2025 1 6 11 0), isoformat monday_noon, isoformat (utc 2025 1 6 13 0)]
   \<and> isoformat_tz since_two_pm_plus2 = ''2025-01-06T14:00:00+02:00''
   \<and> get_events None None (Some since_two_pm_plus2) 200 0 three_events = Inr []"
proof -
  have "tz_instant since_two_pm_plus2 = Some (to_microseconds monday_noon)"
    "to_microseconds monday_noon < to_microseconds (utc 2025 1 6 13 0)"
    by (simp_all add: tz_instant_def since_two_pm_plus2_def with_offset_def datetime.extend_def
        tz_datetime.fields_def datetime.truncate_def to_microseconds_def input_defs cal_defs)
  moreover have "map row_timestamp (tbl_timeline_events three_events)
       = [isoformat (utc 2025 1 6 11 0), isoformat monday_noon, isoformat (utc 2025 1 6 13 0)]"
    by (simp add: three_events_rows event_row_def file_event_def)
  moreover have "isoformat_tz since_two_pm_plus2 = ''2025-01-06T14:00:00+02:00''"
    by (simp add: since_two_pm_plus2_def query_defs input_defs)
  moreover have "get_events None None (Some since_two_pm_plus2) 200 0 three_events = Inr []"
    unfolding get_events_def select_events_def three_events_rows
    by (simp add: since_two_pm_plus2_def query_defs input_defs)
  ultimately show ?thesis by simp
qed

text \<open>
  C10, amended. The \<open>since\<close> filter of \<open>get_events\<close> is an inclusive comparison of ISO
  texts. For a \<open>since\<close> that carries the offset \<open>+00:00\<close>, as the stored timestamps do,
  a persisted event that passes the category and action filters and whose timestamp is
  \<open>since\<close> itself, or a strictly later instant, is among the rows selected; for a
  \<open>limit\<close> and an \<open>offset\<close> within 64 bits \<open>get_events\<close> returns the page that they cut
  from the selected rows, which is all of them when the offset is not positive and the
  limit is negative or not below their number.
\<close>

theorem get_events_since_inclusive:
  assumes "r \<in> set (tbl_timeline_events st)"
    and "event_matches category action None r"
    and "row_timestamp r = isoformat d"
    and "utcoffset since = Some 0"
    and "d = datetime.truncate since
         \<or> (valid_datetime d \<and> valid_datetime (datetime.truncate since)
             \<and> dt_less (datetime.truncate since) d)"
    and "in_int64 limit" and "in_int64 offset"
  shows "r \<in> set (select_events category action (Some since) st)
    \<and> get_events category action (Some since) limit offset st
        = Inr (limit_offset limit offset (select_events category action (Some since) st))
    \<and> (offset \<le> 0
          \<and> (limit < 0 \<or> int (length (select_events category action (Some since) st)) \<le> limit)
        \<longrightarrow> get_events category action (Some since) limit offset st
              = Inr (select_events category action (Some since) st))"
proof -
  let ?s = "datetime.truncate since"
  have "isoformat ?s \<le> isoformat d"
  proof (cases "d = ?s")
    case True
    then show ?thesis by simp
  next
    case False
    with assms(5) have "valid_datetime ?s" "valid_datetime d" "dt_less ?s d" by auto
    then show ?thesis
      using isoformat_less [of ?s d] by simp
  qed
  then have "event_matches category action (Some since) r"
    using assms(2,3) isoformat_tz_utc [OF assms(4)] by (simp add: event_matches_def)
  then have selected: "r \<in> set (select_events category action (Some since) st)"
    using assms(1) by (simp add: set_select_events)
  have page: "get_events category action (Some since) limit offset st
        = Inr (limit_offset limit offset (select_events category action (Some since) st))"
    using assms(6,7) by (simp add: get_events_def)
  show ?thesis
    using selected page by (auto simp: limit_offset_whole)
qed

lemma three_events_since_noon:
  "select_events None None (Some since_noon_utc) three_events
     = [event_row (file_event ''e3'' (utc 2025 1 6 13 0)), event_row (file_event ''e2'' monday_noon)]"
  unfolding select_events_def three_events_rows
  by (simp add: since_noon_utc_def query_defs input_defs)

theorem get_events_since_inclusive_witness:
  "event_row (file_event ''e2'' monday_noon) \<in> set (tbl_timeline_events three_events)
   \<and> event_matches None None None (event_row (file_event ''e2'' monday_noon))
   \<and> row_timestamp (event_row (file_event ''e2'' monday_noon)) = isoformat monday_noon
   \<and> utcoffset since_noon_utc = Some 0 \<and> monday_noon = datetime.truncate since_noon_utc
   \<and> valid_datetime (utc 2025 1 6 13 0) \<and> valid_datetime monday_noon
   \<and> dt_less monday_noon (utc 2025 1 6 13 0)
   \<and> in_int64 200 \<and> in_int64 0
   \<and> get_events None None (Some since_noon_utc) 200 0 three_events
        = Inr [event_row (file_event ''e3'' (utc 2025 1 6 13 0)), event_row (file_event ''e2'' monday_noon)]"
proof -
  let ?e2 = "event_row (file_event ''e2'' monday_noon)"
  let ?e3 = "event_row (file_event ''e3'' (utc 2025 1 6 13 0))"
  have stored: "?e2 \<in> set (tbl_timeline_events three_events)"
    "?e3 \<in> set (tbl_timeline_events three_events)"
    by (simp_all add: three_events_rows)
  have passes: "event_matches None None None ?e2" "event_matches None None None ?e3"
    by (simp_all add: event_matches_def truthy_def)
  have stamps: "row_timestamp ?e2 = isoformat monday_noon"
    "row_timestamp ?e3 = isoformat (utc 2025 1 6 13 0)"
    by (simp_all add: event_row_def file_event_def)
  have since: "utcoffset since_noon_utc = Some 0" "datetime.truncate since_noon_utc = monday_noon"
    by (simp_all add: since_noon_utc_def with_offset_def datetime.extend_def
        tz_datetime.fields_def datetime.truncate_def input_defs)
  have later: "valid_datetime (utc 2025 1 6 13 0) \<and> valid_datetime monday_noon
      \<and> dt_less monday_noon (utc 2025 1 6 13 0)"
    by (simp add: valid_datetime_def days_in_month_def is_leap_def dt_less_def dt_key_def input_defs)
  have range: "in_int64 200" "in_int64 0"
    by (simp_all add: in_int64_def)
  show ?thesis
    using get_events_since_inclusive [of ?e2 three_events None None monday_noon since_noon_utc 200 0]
      get_events_since_inclusive [of ?e3 three_events None None "utc 2025 1 6 13 0" since_noon_utc 200 0]
      stored passes stamps since later range three_events_since_noon
    by simp
qed

end
